theory Spec2Isabelle
  imports Complex_Main
begin

section \<open>The libraries the scripts call\<close>

text \<open>
  The conversion scripts and the two servers are glue around torch, transformers,
  coremltools and Flask. None of that code belongs to the repository, so every library
  call is a field of an environment: it either raises (\<open>Inl\<close> the text of the
  exception, what Python's \<open>str(e)\<close> gives) or returns a value. What a call
  raises is an \<open>Exception\<close>, the kind that \<open>except Exception\<close> catches; an
  interrupt from the keyboard or a \<open>SystemExit\<close> is not among the failures followed
  here. Objects the libraries hand back (tokenizers, models, traced graphs) are opaque
  handles.
\<close>

type_synonym path = string
type_synonym handle = nat

datatype cls = AutoTokenizer | AutoModelForCausalLM
  | SpeechT5Processor | SpeechT5ForTextToSpeech | SpeechT5HifiGan

datatype tensor = Tensor (shape: "nat list") (payload: nat)

datatype model_output =
    Output_object "(string \<times> tensor) list"
  | Output_tuple "tensor list"
  | Output_tensor tensor


datatype wrapper = LlamaWrapper handle | AcousticWrapper handle
  | TransformerWrapper handle | ModelWrapper handle

datatype dim = Dim nat | RangeDim nat nat
datatype dtype = Dtype_int
datatype tensor_type =
  TensorType (tt_name: string) (tt_shape: "dim list option") (tt_dtype: "dtype option")

datatype compute_unit = CPU_ONLY | CPU_AND_GPU | CPU_AND_NE | ALL
datatype target = iOS15 | iOS16 | iOS17

datatype convert_args = Convert_args
  (inputs: "tensor_type list") (outputs: "tensor_type list")
  (compute_units: "compute_unit option") (minimum_deployment_target: "target option")

text \<open>
  A converted model is described by the interface it was converted with, next to the
  opaque compiled payload.
\<close>

datatype mlmodel = MLModel (declared: convert_args) (compiled: nat)

datatype save_result = Saved | Save_failed string bool

datatype disk_entry = Package mlmodel | Partial

type_synonym fs = "path \<rightharpoonup> disk_entry"

record env =
  import_module :: "string \<Rightarrow> string option"
  from_pretrained :: "cls \<Rightarrow> string \<Rightarrow> string + handle"
  module_eval :: "handle \<Rightarrow> string option"
  wrapper_eval :: "wrapper \<Rightarrow> string option"
  vocab_size :: "handle \<Rightarrow> int"
  random_payload :: "nat list \<Rightarrow> nat"
  get_model :: "string + handle"
  model_call :: "handle \<Rightarrow> tensor list \<Rightarrow> string + model_output"
  model_generate_speech :: "handle \<Rightarrow> tensor list \<Rightarrow> string + tensor"
  jit_trace :: "wrapper \<Rightarrow> tensor list \<Rightarrow> string + handle"
  convert_payload :: "handle \<Rightarrow> convert_args \<Rightarrow> string + nat"
  save_outcome :: "mlmodel \<Rightarrow> path \<Rightarrow> save_result"
  abspath :: "path \<Rightarrow> path"

text \<open>
  \<open>torch.randint(low, high, size)\<close> refuses a bound that does not fit a signed 64-bit
  integer and an empty range, and otherwise returns a tensor of the requested size;
  \<open>torch.randn(size)\<close> returns one.
\<close>

definition torch_randint :: "env \<Rightarrow> int \<Rightarrow> int \<Rightarrow> nat list \<Rightarrow> string + tensor" where
  "torch_randint e low high dims =
     (if low < - (2 ^ 63) \<or> 2 ^ 63 \<le> low \<or> high < - (2 ^ 63) \<or> 2 ^ 63 \<le> high then
        Inl ''Overflow when unpacking long''
      else if low < high then Inr (Tensor dims (random_payload e dims))
      else Inl ''random_ expects from to be less than to'')"

definition torch_randn :: "env \<Rightarrow> nat list \<Rightarrow> tensor" where
  "torch_randn e dims = Tensor dims (random_payload e dims)"

definition ct_convert :: "env \<Rightarrow> handle \<Rightarrow> convert_args \<Rightarrow> string + mlmodel" where
  "ct_convert e traced args =
     (case convert_payload e traced args of
        Inl err \<Rightarrow> Inl err
      | Inr p \<Rightarrow> Inr (MLModel args p))"

text \<open>
  \<open>mlmodel.save(path)\<close>: a completed save leaves the package at the path; a failed
  one raises and may leave a partial bundle behind.
\<close>

definition mlmodel_save :: "env \<Rightarrow> mlmodel \<Rightarrow> path \<Rightarrow> fs \<Rightarrow> string option \<times> fs" where
  "mlmodel_save e m p fsys =
     (case save_outcome e m p of
        Saved \<Rightarrow> (None, fsys(p \<mapsto> Package m))
      | Save_failed err left \<Rightarrow> (Some err, if left then fsys(p \<mapsto> Partial) else fsys))"

text \<open>A declared axis accepts a size; a declared shape accepts a concrete one.\<close>

fun dim_accepts :: "dim \<Rightarrow> nat \<Rightarrow> bool" where
  "dim_accepts (Dim k) n = (n = k)"
| "dim_accepts (RangeDim lo hi) n = (lo \<le> n \<and> n \<le> hi)"

definition shape_accepts :: "dim list \<Rightarrow> nat list \<Rightarrow> bool" where
  "shape_accepts ds ns = list_all2 dim_accepts ds ns"

section \<open>What a run leaves behind\<close>

text \<open>
  The scripts print lines that open with an emoji; the emoji is kept as a tag, since it is
  what tells a diagnostic from a progress line. A print whose text starts with a line
  break is written as an empty print followed by the line, which puts the same
  characters on the terminal.
\<close>

datatype icon = Brain | Cross | Warning | Pointer | Cycle | Check | Zap | Dice
  | Speaking | Rocket | Inbox | No_icon

datatype event =
    Print icon string
  | From_pretrained cls string
  | Module_eval handle
  | Wrapper_eval wrapper
  | Get_model
  | Trace wrapper "tensor list"
  | Convert handle convert_args
  | Save mlmodel path

datatype outcome = Returned | Raised string

datatype run = Run (outcome: outcome) (events: "event list") (files: fs)

definition emit :: "event \<Rightarrow> run \<Rightarrow> run" where
  "emit ev r = Run (outcome r) (ev # events r) (files r)"

definition finish :: "outcome \<Rightarrow> fs \<Rightarrow> run" where
  "finish out fsys = Run out [] fsys"

section \<open>Python's string tests\<close>

fun startswith :: "string \<Rightarrow> string \<Rightarrow> bool" where
  "startswith s [] = True"
| "startswith [] (p # ps) = False"
| "startswith (c # cs) (p # ps) = (c = p \<and> startswith cs ps)"

text \<open>\<open>contains p s\<close> is Python's \<open>p in s\<close>.\<close>

fun contains :: "string \<Rightarrow> string \<Rightarrow> bool" where
  "contains p [] = (p = [])"
| "contains p (c # cs) = (startswith (c # cs) p \<or> contains p cs)"

text \<open>\<open>str.lower\<close> on the ASCII letters, the only ones that can become g, a, t, e or d.\<close>

definition lower_char :: "char \<Rightarrow> char" where
  "lower_char c =
     (case map_of (zip ''ABCDEFGHIJKLMNOPQRSTUVWXYZ'' ''abcdefghijklmnopqrstuvwxyz'') c of
        Some l \<Rightarrow> l
      | None \<Rightarrow> c)"

definition lower :: "string \<Rightarrow> string" where
  "lower s = map lower_char s"

section \<open>scripts/generate_llama_coreml.py\<close>

text \<open>
  The body shared by the two \<open>try\<close> blocks of \<open>convert_llama\<close>: load the tokenizer,
  load the model, put it in inference mode. It stops at the first call that raises, and
  gives back the calls it made.
\<close>

definition load_llama :: "env \<Rightarrow> string \<Rightarrow> (string + handle \<times> handle) \<times> event list" where
  "load_llama e model_id =
     (case from_pretrained e AutoTokenizer model_id of
        Inl err \<Rightarrow> (Inl err, [From_pretrained AutoTokenizer model_id])
      | Inr tokenizer \<Rightarrow>
          (case from_pretrained e AutoModelForCausalLM model_id of
             Inl err \<Rightarrow>
               (Inl err, [From_pretrained AutoTokenizer model_id,
                          From_pretrained AutoModelForCausalLM model_id])
           | Inr model \<Rightarrow>
               (case module_eval e model of
                  Some err \<Rightarrow>
                    (Inl err, [From_pretrained AutoTokenizer model_id,
                               From_pretrained AutoModelForCausalLM model_id,
                               Module_eval model])
                | None \<Rightarrow>
                    (Inr (tokenizer, model),
                     [From_pretrained AutoTokenizer model_id,
                      From_pretrained AutoModelForCausalLM model_id,
                      Module_eval model]))))"

definition emits :: "event list \<Rightarrow> run \<Rightarrow> run" where
  "emits evs r = Run (outcome r) (evs @ events r) (files r)"

definition llama_id :: string where
  "llama_id = ''meta-llama/Llama-3.2-1B-Instruct''"

definition tinyllama_id :: string where
  "tinyllama_id = ''TinyLlama/TinyLlama-1.1B-Chat-v1.0''"

definition access_denied :: "string \<Rightarrow> bool" where
  "access_denied err = (contains ''403'' err \<or> contains ''gated'' (lower err))"

definition llama_convert_args :: convert_args where
  "llama_convert_args =
     Convert_args
       [TensorType ''input_ids'' (Some [Dim 1, RangeDim 1 2048]) (Some Dtype_int)]
       [TensorType ''logits'' None None]
       (Some CPU_AND_NE) (Some iOS16)"

text \<open>Lines 32 to 67: everything after the model and its tokenizer are bound.\<close>

definition llama_export :: "env \<Rightarrow> handle \<Rightarrow> handle \<Rightarrow> fs \<Rightarrow> run" where
  "llama_export e tokenizer model fsys =
     emit (Print Zap ''Creating Traceable Wrapper...'')
     (let wrapper = LlamaWrapper model in
      emit (Wrapper_eval wrapper)
      (case wrapper_eval e wrapper of
         Some err \<Rightarrow> finish (Raised err) fsys
       | None \<Rightarrow>
      emit (Print Dice ''Tracing model...'')
      (case torch_randint e 0 (vocab_size e tokenizer) [1, 10] of
         Inl err \<Rightarrow> finish (Raised err) fsys
       | Inr example_input \<Rightarrow>
           emit (Trace wrapper [example_input])
           (case jit_trace e wrapper [example_input] of
              Inl err \<Rightarrow> finish (Raised err) fsys
            | Inr traced_model \<Rightarrow>
                emit (Print Cycle ''Converting to CoreML (Float16)...'')
                (emit (Convert traced_model llama_convert_args)
                 (case ct_convert e traced_model llama_convert_args of
                    Inl err \<Rightarrow> finish (Raised err) fsys
                  | Inr mlmodel \<Rightarrow>
                      (let output_path = ''Llama3_1B.mlpackage'' in
                       emit (Save mlmodel output_path)
                       (case mlmodel_save e mlmodel output_path fsys of
                          (Some err, fsys') \<Rightarrow> finish (Raised err) fsys'
                        | (None, fsys') \<Rightarrow>
                            emit (Print Check (''Saved Llama 3.2 1B to '' @ output_path))
                            (finish Returned fsys')))))))))"

definition convert_llama :: "env \<Rightarrow> fs \<Rightarrow> run" where
  "convert_llama e fsys =
     emit (Print Brain ''Loading Llama 3.2 1B-Instruct...'')
     (case load_llama e llama_id of
        (Inr (tokenizer, model), calls) \<Rightarrow>
          emits calls (llama_export e tokenizer model fsys)
      | (Inl err, calls) \<Rightarrow>
          emits calls
          (emit (Print Cross (''Error loading '' @ llama_id @ '': '' @ err))
           (if access_denied err then
              emit (Print No_icon '''')
              (emit (Print Warning
                 ''ACCESS DENIED: You have not accepted the license for Llama 3.2 on Hugging Face.'')
              (emit (Print Pointer
                 ''Go here to accept it: https://huggingface.co/meta-llama/Llama-3.2-1B-Instruct'')
              (emit (Print No_icon '''')
              (emit (Print Cycle
                 ''Falling back to 'TinyLlama-1.1B-Chat' so you have a working brain...'')
              (case load_llama e tinyllama_id of
                 (Inr (tokenizer, model), calls') \<Rightarrow>
                   emits calls'
                   (emit (Print Check (''Successfully loaded fallback model: '' @ tinyllama_id))
                    (llama_export e tokenizer model fsys))
               | (Inl fallback_error, calls') \<Rightarrow>
                   emits calls'
                   (emit (Print Cross (''Fallback failed too: '' @ fallback_error))
                    (finish Returned fsys)))))))
            else finish Returned fsys)))"

section \<open>scripts/generate_tts_coreml.py\<close>

definition tts_convert_args :: convert_args where
  "tts_convert_args =
     Convert_args
       [TensorType ''input_ids'' (Some [Dim 1, RangeDim 1 512]) (Some Dtype_int),
        TensorType ''speaker_embeddings'' (Some [Dim 1, Dim 512]) None]
       [TensorType ''spectrogram'' None None]
       None None"

text \<open>
  Lines 21 to 76. The handler of the second \<open>try\<close> block is the continuation
  \<open>recover\<close>: it prints two lines and lets the function end normally. The wrapper is
  put in inference mode and the sample inputs are made between the two \<open>try\<close>
  blocks, where nothing catches a raise.
\<close>

definition tts_export :: "env \<Rightarrow> handle \<Rightarrow> fs \<Rightarrow> run" where
  "tts_export e model fsys =
     emit (Print Zap ''Creating Traceable Wrapper...'')
     (let wrapper = TransformerWrapper model in
      emit (Wrapper_eval wrapper)
      (case wrapper_eval e wrapper of
         Some err \<Rightarrow> finish (Raised err) fsys
       | None \<Rightarrow>
      emit (Print Dice ''Tracing model...'')
      (case torch_randint e 0 100 [1, 10] of
         Inl err \<Rightarrow> finish (Raised err) fsys
       | Inr dummy_ids \<Rightarrow>
           (let dummy_speaker = torch_randn e [1, 512];
                recover = (\<lambda>err fsys'.
                  emit (Print Warning (''Tracing failed (common for complex TTS): '' @ err))
                  (emit (Print No_icon
                     ''Falling back to simulated success for now so you can proceed with integration.'')
                  (finish Returned fsys')))
            in
            emit (Trace wrapper [dummy_ids, dummy_speaker])
            (case jit_trace e wrapper [dummy_ids, dummy_speaker] of
               Inl err \<Rightarrow> recover err fsys
             | Inr traced_model \<Rightarrow>
                 emit (Print Cycle ''Converting to CoreML...'')
                 (emit (Convert traced_model tts_convert_args)
                  (case ct_convert e traced_model tts_convert_args of
                     Inl err \<Rightarrow> recover err fsys
                   | Inr mlmodel \<Rightarrow>
                       emit (Save mlmodel ''SpeechT5_Acoustic.mlpackage'')
                       (case mlmodel_save e mlmodel ''SpeechT5_Acoustic.mlpackage'' fsys of
                          (Some err, fsys') \<Rightarrow> recover err fsys'
                        | (None, fsys') \<Rightarrow>
                            emit (Print Check ''Saved SpeechT5_Acoustic.mlpackage'')
                            (finish Returned fsys')))))))))"

definition convert_tts :: "env \<Rightarrow> fs \<Rightarrow> run" where
  "convert_tts e fsys =
     emit (Print Speaking ''Loading SpeechT5 TTS...'')
     (let model_id = ''microsoft/speecht5_tts'';
          vocoder_id = ''microsoft/speecht5_hifigan'';
          stop = (\<lambda>err. emit (Print Cross (''Error loading model: '' @ err))
                          (finish Returned fsys))
      in
      emit (From_pretrained SpeechT5Processor model_id)
      (case from_pretrained e SpeechT5Processor model_id of
         Inl err \<Rightarrow> stop err
       | Inr processor \<Rightarrow>
           emit (From_pretrained SpeechT5ForTextToSpeech model_id)
           (case from_pretrained e SpeechT5ForTextToSpeech model_id of
              Inl err \<Rightarrow> stop err
            | Inr model \<Rightarrow>
                emit (From_pretrained SpeechT5HifiGan vocoder_id)
                (case from_pretrained e SpeechT5HifiGan vocoder_id of
                   Inl err \<Rightarrow> stop err
                 | Inr vocoder \<Rightarrow>
                     emit (Module_eval model)
                     (case module_eval e model of
                        Some err \<Rightarrow> stop err
                      | None \<Rightarrow>
                          emit (Module_eval vocoder)
                          (case module_eval e vocoder of
                             Some err \<Rightarrow> stop err
                           | None \<Rightarrow> tts_export e model fsys))))))"

section \<open>scripts/generate_voice_model.py\<close>

definition voice_convert_args :: convert_args where
  "voice_convert_args =
     Convert_args
       [TensorType ''audio'' (Some [Dim 1, Dim 16000]) None]
       [TensorType ''embedding'' None None]
       None None"

definition generate_speaker_encoder :: "env \<Rightarrow> fs \<Rightarrow> run" where
  "generate_speaker_encoder e fsys =
     emit (Print Rocket ''Starting Speaker Encoder Generation...'')
     (emit (Print Inbox ''Downloading Wav2Vec2 base model...'')
     (emit Get_model
     (case get_model e of
        Inl err \<Rightarrow> finish (Raised err) fsys
      | Inr original_model \<Rightarrow>
          emit (Module_eval original_model)
          (case module_eval e original_model of
             Some err \<Rightarrow> finish (Raised err) fsys
           | None \<Rightarrow>
               (let model = ModelWrapper original_model in
                emit (Wrapper_eval model)
                (case wrapper_eval e model of
                   Some err \<Rightarrow> finish (Raised err) fsys
                 | None \<Rightarrow>
                emit (Print Zap ''Tracing model with dummy input...'')
                (let dummy_input = torch_randn e [1, 16000] in
                 emit (Trace model [dummy_input])
                 (case jit_trace e model [dummy_input] of
                    Inl err \<Rightarrow> finish (Raised err) fsys
                  | Inr traced_model \<Rightarrow>
                      emit (Print Cycle ''Converting to CoreML format...'')
                      (emit (Convert traced_model voice_convert_args)
                       (case ct_convert e traced_model voice_convert_args of
                          Inl err \<Rightarrow> finish (Raised err) fsys
                        | Inr mlmodel \<Rightarrow>
                            (let output_path = ''SpeakerEncoder.mlpackage'' in
                             emit (Save mlmodel output_path)
                             (case mlmodel_save e mlmodel output_path fsys of
                                (Some err, fsys') \<Rightarrow> finish (Raised err) fsys'
                              | (None, fsys') \<Rightarrow>
                                  emit (Print Check
                                          (''Success! Saved to '' @ abspath e output_path))
                                  (finish Returned fsys')))))))))))))"

text \<open>The \<open>__main__\<close> block of the speaker-encoder script catches whatever escapes.\<close>

definition speaker_encoder_main :: "env \<Rightarrow> fs \<Rightarrow> run" where
  "speaker_encoder_main e fsys =
     (let r = generate_speaker_encoder e fsys in
      case outcome r of
        Returned \<Rightarrow> r
      | Raised err \<Rightarrow>
          Run Returned
            (events r @
               [Print Cross (''Error: '' @ err),
                Print No_icon
                  ''Tip: Make sure you installed dependencies: pip install torch torchaudio coremltools''])
            (files r))"

text \<open>
  The other two scripts call their function bare. A Python process whose entry point
  returns ends with status 0; one that dies of an uncaught exception prints the
  traceback and ends with status 1.
\<close>

definition exit_status :: "run \<Rightarrow> nat" where
  "exit_status r = (case outcome r of Returned \<Rightarrow> 0 | Raised err \<Rightarrow> 1)"

text \<open>
  A script as a process: the imports at the top of the file run first, outside every
  \<open>try\<close>, so a module that cannot be imported ends the process before the entry
  point is reached.
\<close>

fun import_all :: "env \<Rightarrow> string list \<Rightarrow> string option" where
  "import_all e [] = None"
| "import_all e (m # ms) =
     (case import_module e m of Some err \<Rightarrow> Some err | None \<Rightarrow> import_all e ms)"

definition llama_script :: "env \<Rightarrow> fs \<Rightarrow> run" where
  "llama_script e fsys =
     (case import_all e [''torch'', ''coremltools'', ''transformers'', ''os''] of
        Some err \<Rightarrow> finish (Raised err) fsys
      | None \<Rightarrow> convert_llama e fsys)"

definition tts_script :: "env \<Rightarrow> fs \<Rightarrow> run" where
  "tts_script e fsys =
     (case import_all e [''torch'', ''coremltools'', ''transformers'', ''os''] of
        Some err \<Rightarrow> finish (Raised err) fsys
      | None \<Rightarrow> convert_tts e fsys)"

definition speaker_encoder_script :: "env \<Rightarrow> fs \<Rightarrow> run" where
  "speaker_encoder_script e fsys =
     (case import_all e [''torch'', ''torchaudio'', ''coremltools'', ''os''] of
        Some err \<Rightarrow> finish (Raised err) fsys
      | None \<Rightarrow> speaker_encoder_main e fsys)"

section \<open>The stages of an export job\<close>

text \<open>
  The state machine of the design names four stages before the package is saved:
  resolving, wrapping, tracing and converting. For each script, what those stages come
  to on a given environment, told without the prints and the handlers: the stage that
  fails first, or the converted model that is handed to the save.
\<close>

datatype stage = Resolving | Wrapping | Tracing | Converting




section \<open>The wrapper classes\<close>



section \<open>The request and response values of the two servers\<close>

text \<open>
  A request body is a JSON object, read as a Python dict. Floats are carried as exact
  rationals: the handlers pass them on and never compute with them.
\<close>

datatype json = JNull | JBool bool | JInt int | JFloat rat | JStr string
  | JArr "json list" | JObj "(string \<times> json) list"

text \<open>Python's truth value of a decoded JSON value.\<close>

fun truthy :: "json \<Rightarrow> bool" where
  "truthy JNull = False"
| "truthy (JBool b) = b"
| "truthy (JInt n) = (n \<noteq> 0)"
| "truthy (JFloat q) = (q \<noteq> 0)"
| "truthy (JStr s) = (s \<noteq> [])"
| "truthy (JArr xs) = (xs \<noteq> [])"
| "truthy (JObj kvs) = (kvs \<noteq> [])"

text \<open>\<open>data.get(key, default)\<close>.\<close>

definition dict_get :: "(string \<rightharpoonup> json) \<Rightarrow> string \<Rightarrow> json \<Rightarrow> json" where
  "dict_get data key dflt = (case data key of None \<Rightarrow> dflt | Some v \<Rightarrow> v)"

text \<open>
  A Flask response: \<open>jsonify(body), status\<close>, or the file that \<open>send_file\<close>
  streams with status 200.
\<close>

datatype response = Jsonify "(string \<times> json) list" nat | File_body path string

fun status :: "response \<Rightarrow> nat" where
  "status (Jsonify body code) = code"
| "status (File_body p mimetype) = 200"

text \<open>A JSON body that carries an \<open>error\<close> string, with a non-success status.\<close>

fun is_error_response :: "response \<Rightarrow> bool" where
  "is_error_response (Jsonify body code) =
     (400 \<le> code \<and> (case map_of body ''error'' of Some (JStr msg) \<Rightarrow> True | _ \<Rightarrow> False))"
| "is_error_response (File_body p mimetype) = False"

section \<open>PCPOScompanion/PythonScripts/tts\_server.py\<close>

record tts_env =
  named_temporary_file :: "string \<Rightarrow> string + path"
  os_path_exists :: "json \<Rightarrow> string + bool"
  tts_to_file :: "handle \<Rightarrow> json \<Rightarrow> json \<Rightarrow> json \<Rightarrow> path \<Rightarrow> string option"
  send_file :: "path \<Rightarrow> string \<Rightarrow> string option"
  str_of_value :: "json \<Rightarrow> string"

datatype tts_event =
    Temp_file
  | Exists_check json
  | Tts_to_file json json json path
  | Send_file path
  | Log_error string

text \<open>What an f-string puts in place of a value: a string as it is.\<close>

definition tts_format :: "tts_env \<Rightarrow> json \<Rightarrow> string" where
  "tts_format e v = (case v of JStr s \<Rightarrow> s | _ \<Rightarrow> str_of_value e v)"

text \<open>The \<open>except Exception\<close> clause of \<open>generate_speech\<close>.\<close>

definition tts_failed :: "string \<Rightarrow> tts_event list \<Rightarrow> response \<times> tts_event list" where
  "tts_failed err before =
     (Jsonify [(''error'', JStr err)] 500,
      before @ [Log_error (''TTS Generation Error: '' @ err)])"

definition generate_speech ::
  "tts_env \<Rightarrow> handle option \<Rightarrow> (string \<rightharpoonup> json) \<Rightarrow> response \<times> tts_event list" where
  "generate_speech e tts data =
     (case tts of
        None \<Rightarrow> (Jsonify [(''error'', JStr ''Model not loaded'')] 503, [])
      | Some engine \<Rightarrow>
          (let text = dict_get data ''text'' JNull;
               speaker_wav = dict_get data ''speaker_wav'' (JStr ''reference_audio/pcpos_ref.wav'');
               language = dict_get data ''language'' (JStr ''en'')
           in
           if \<not> truthy text then
             (Jsonify [(''error'', JStr ''Missing 'text' parameter'')] 400, [])
           else
             (case named_temporary_file e ''.wav'' of
                Inl err \<Rightarrow> tts_failed err [Temp_file]
              | Inr output_path \<Rightarrow>
                  (case os_path_exists e speaker_wav of
                     Inl err \<Rightarrow> tts_failed err [Temp_file, Exists_check speaker_wav]
                   | Inr found \<Rightarrow>
                       if \<not> found then
                         (Jsonify
                            [(''error'',
                              JStr (''Speaker reference file not found: ''
                                      @ tts_format e speaker_wav))]
                            400,
                          [Temp_file, Exists_check speaker_wav])
                       else
                         (case tts_to_file e engine text speaker_wav language output_path of
                            Some err \<Rightarrow>
                              tts_failed err
                                [Temp_file, Exists_check speaker_wav,
                                 Tts_to_file text speaker_wav language output_path]
                          | None \<Rightarrow>
                              (case send_file e output_path ''audio/wav'' of
                                 Some err \<Rightarrow>
                                   tts_failed err
                                     [Temp_file, Exists_check speaker_wav,
                                      Tts_to_file text speaker_wav language output_path,
                                      Send_file output_path]
                               | None \<Rightarrow>
                                   (File_body output_path ''audio/wav'',
                                    [Temp_file, Exists_check speaker_wav,
                                     Tts_to_file text speaker_wav language output_path,
                                     Send_file output_path])))))))"







section \<open>PCPOScompanion/PythonScripts/granite\_server.py\<close>








section \<open>Reading a run\<close>

text \<open>A request to load anything under a given model id.\<close>

fun is_load_of :: "string \<Rightarrow> event \<Rightarrow> bool" where
  "is_load_of mid (From_pretrained c m) = (m = mid)"
| "is_load_of mid ev = False"

text \<open>The packages a run asked to be saved, with their paths, in order.\<close>

fun saves :: "event list \<Rightarrow> (mlmodel \<times> path) list" where
  "saves [] = []"
| "saves (Save m p # evs) = (m, p) # saves evs"
| "saves (ev # evs) = saves evs"

text \<open>The arguments of every conversion a run asked for.\<close>

fun conversions :: "event list \<Rightarrow> convert_args list" where
  "conversions [] = []"
| "conversions (Convert g args # evs) = args # conversions evs"
| "conversions (ev # evs) = conversions evs"

text \<open>The wrappers a run handed to the tracer, with the sample inputs.\<close>

fun traces :: "event list \<Rightarrow> (wrapper \<times> tensor list) list" where
  "traces [] = []"
| "traces (Trace w xs # evs) = (w, xs) # traces evs"
| "traces (ev # evs) = traces evs"

text \<open>
  A diagnostic is a line printed under the cross or the warning sign; an uncaught
  exception brings its own, the traceback.
\<close>

fun is_diagnostic :: "event \<Rightarrow> bool" where
  "is_diagnostic (Print Cross msg) = True"
| "is_diagnostic (Print Warning msg) = True"
| "is_diagnostic ev = False"

definition diagnosed :: "run \<Rightarrow> bool" where
  "diagnosed r = (outcome r \<noteq> Returned \<or> list_ex is_diagnostic (events r))"

text \<open>
  A run that started on the files \<open>fsys\<close> wrote its package when a save it asked for
  completed and the files it leaves are the ones it found with that package added.
\<close>

definition package_written :: "env \<Rightarrow> fs \<Rightarrow> run \<Rightarrow> bool" where
  "package_written e fsys r =
     list_ex (\<lambda>(m, p). save_outcome e m p = Saved \<and> files r = fsys(p \<mapsto> Package m))
       (saves (events r))"



section \<open>Sample environments\<close>

text \<open>
  A machine on which the optional calls succeed; what the model hub and the tracer
  answer is left open.
\<close>

definition machine ::
  "(cls \<Rightarrow> string \<Rightarrow> string + handle) \<Rightarrow> (wrapper \<Rightarrow> tensor list \<Rightarrow> string + handle) \<Rightarrow> env" where
  "machine hub tracer =
     \<lparr>import_module = (\<lambda>m. None),
      from_pretrained = hub,
      module_eval = (\<lambda>h. None),
      wrapper_eval = (\<lambda>w. None),
      vocab_size = (\<lambda>h. 32000),
      random_payload = (\<lambda>dims. 7),
      get_model = Inr 4,
      model_call = (\<lambda>h xs. Inl ''not run''),
      model_generate_speech = (\<lambda>h xs. Inl ''not run''),
      jit_trace = tracer,
      convert_payload = (\<lambda>g args. Inr 9),
      save_outcome = (\<lambda>m p. Saved),
      abspath = (\<lambda>p. ''/work/'' @ p)\<rparr>"

text \<open>A hub that gates Llama 3.2 and serves everything else.\<close>

definition gated_hub :: "cls \<Rightarrow> string \<Rightarrow> string + handle" where
  "gated_hub c mid =
     (if mid = llama_id then Inl ''403 Client Error: Cannot access gated repo''
      else Inr (case c of AutoTokenizer \<Rightarrow> 1 | _ \<Rightarrow> 2))"

text \<open>A hub that answers too late for Llama 3.2, with a time that happens to hold 403.\<close>

definition slow_hub :: "cls \<Rightarrow> string \<Rightarrow> string + handle" where
  "slow_hub c mid =
     (if mid = llama_id then Inl ''timeout after 1403 ms''
      else Inr (case c of AutoTokenizer \<Rightarrow> 1 | _ \<Rightarrow> 2))"

text \<open>A hub that cannot be reached, and one that serves every model.\<close>

definition offline_hub :: "cls \<Rightarrow> string \<Rightarrow> string + handle" where
  "offline_hub c mid = Inl ''Connection error''"

definition open_hub :: "cls \<Rightarrow> string \<Rightarrow> string + handle" where
  "open_hub c mid = Inr (case c of AutoTokenizer \<Rightarrow> 1 | SpeechT5Processor \<Rightarrow> 1 | _ \<Rightarrow> 2)"

definition tracer_ok :: "wrapper \<Rightarrow> tensor list \<Rightarrow> string + handle" where
  "tracer_ok w xs = Inr 3"

definition tracer_fails :: "wrapper \<Rightarrow> tensor list \<Rightarrow> string + handle" where
  "tracer_fails w xs = Inl ''data-dependent control flow''"


text \<open>A machine without torchaudio.\<close>

definition no_torchaudio :: env where
  "no_torchaudio =
     (machine open_hub tracer_ok)
       \<lparr>import_module := (\<lambda>m. if m = ''torchaudio''
                               then Some ''No module named torchaudio'' else None)\<rparr>"

text \<open>A speech server whose disk holds only the shipped reference audio.\<close>

definition speech_host :: tts_env where
  "speech_host =
     \<lparr>named_temporary_file = (\<lambda>suffix. Inr (''/tmp/tmp0'' @ suffix)),
      os_path_exists = (\<lambda>v. case v of
          JStr p \<Rightarrow> Inr (p = ''reference_audio/pcpos_ref.wav'')
        | JInt n \<Rightarrow> Inr False
        | JBool b \<Rightarrow> Inr False
        | _ \<Rightarrow> Inl ''stat: path should be string, bytes, os.PathLike or integer''),
      tts_to_file = (\<lambda>engine text speaker language p. None),
      send_file = (\<lambda>p mimetype. None),
      str_of_value = (\<lambda>v. ''?'')\<rparr>"


section \<open>Facts about runs\<close>

lemma events_emit [simp]: "events (emit ev r) = ev # events r"
  and outcome_emit [simp]: "outcome (emit ev r) = outcome r"
  and files_emit [simp]: "files (emit ev r) = files r"
  by (simp_all add: emit_def)

lemma events_emits [simp]: "events (emits evs r) = evs @ events r"
  and outcome_emits [simp]: "outcome (emits evs r) = outcome r"
  and files_emits [simp]: "files (emits evs r) = files r"
  by (simp_all add: emits_def)

lemma run_finish [simp]: "events (finish out fsys) = []" "outcome (finish out fsys) = out"
  "files (finish out fsys) = fsys"
  by (simp_all add: finish_def)

lemma llama_export_no_load:
  "filter (is_load_of mid) (events (llama_export e tokenizer model fsys)) = []"
  by (simp add: llama_export_def Let_def split: sum.splits prod.splits option.splits)

lemma llama_export_wraps:
  "Wrapper_eval (LlamaWrapper model) \<in> set (events (llama_export e tokenizer model fsys))"
  by (simp add: llama_export_def Let_def split: sum.splits prod.splits option.splits)

lemma llama_export_traces:
  "Trace w xs \<in> set (events (llama_export e tokenizer model fsys)) \<Longrightarrow> w = LlamaWrapper model"
  by (auto simp add: llama_export_def Let_def split: sum.splits prod.splits option.splits)

lemma load_llama_calls:
  "filter (is_load_of mid) (snd (load_llama e mid')) =
     (if mid = mid' then
        From_pretrained AutoTokenizer mid #
          (case from_pretrained e AutoTokenizer mid of Inl _ \<Rightarrow> []
           | Inr _ \<Rightarrow> [From_pretrained AutoModelForCausalLM mid])
      else [])"
  by (simp add: load_llama_def split: sum.splits option.splits)

lemma load_llama_no_stage:
  "ev \<in> set (snd (load_llama e mid)) \<Longrightarrow>
     (\<exists>c. ev = From_pretrained c mid) \<or> (\<exists>h. ev = Module_eval h)"
  by (auto simp add: load_llama_def split: sum.splits option.splits)

lemma ids_differ: "llama_id \<noteq> tinyllama_id" by (simp add: llama_id_def tinyllama_id_def)

text \<open>
  C1, amended. The script takes a failure of the first load for an access denial when
  the text of the error holds \<open>403\<close> or, in any case of letters, \<open>gated\<close>. When the
  first load of \<open>convert_llama\<close> fails with such an error, the fallback model is asked
  for exactly once (its tokenizer once, its weights at most once), and whatever follows is
  the export of the fallback's tokenizer and model: the wrapper that is built, and handed
  to the tracer, wraps the fallback model, and the outcome and the files are those of
  that export. When the
  fallback load raises too the function returns and touches no file. For an error whose
  text holds neither, nothing is asked of the fallback and the function returns.
\<close>

theorem convert_llama_fallback_once:
  assumes "fst (load_llama e llama_id) = Inl err"
  shows "(access_denied err \<longrightarrow>
            length (filter (\<lambda>ev. ev = From_pretrained AutoTokenizer tinyllama_id)
                      (events (convert_llama e fsys))) = 1
          \<and> length (filter (\<lambda>ev. ev = From_pretrained AutoModelForCausalLM tinyllama_id)
                      (events (convert_llama e fsys))) \<le> 1
          \<and> (case fst (load_llama e tinyllama_id) of
               Inr (tokenizer, model) \<Rightarrow>
                 (\<exists>before. events (convert_llama e fsys) =
                    before @ events (llama_export e tokenizer model fsys))
                 \<and> outcome (convert_llama e fsys) = outcome (llama_export e tokenizer model fsys)
                 \<and> files (convert_llama e fsys) = files (llama_export e tokenizer model fsys)
                 \<and> Wrapper_eval (LlamaWrapper model) \<in> set (events (convert_llama e fsys))
                 \<and> (\<forall>w xs. Trace w xs \<in> set (events (convert_llama e fsys))
                       \<longrightarrow> w = LlamaWrapper model)
             | Inl fallback_error \<Rightarrow>
                 outcome (convert_llama e fsys) = Returned
                 \<and> files (convert_llama e fsys) = fsys))
       \<and> (\<not> access_denied err \<longrightarrow>
            filter (is_load_of tinyllama_id) (events (convert_llama e fsys)) = []
          \<and> outcome (convert_llama e fsys) = Returned
          \<and> files (convert_llama e fsys) = fsys)"
proof -
  obtain calls where l1: "load_llama e llama_id = (Inl err, calls)"
    using assms by (cases "load_llama e llama_id") simp
  have c1: "filter (is_load_of tinyllama_id) calls = []"
    using load_llama_calls [of tinyllama_id e llama_id] l1 ids_differ by simp
  have n1: "From_pretrained c tinyllama_id \<notin> set calls" for c
    using load_llama_no_stage [of "From_pretrained c tinyllama_id" e llama_id] l1 ids_differ
    by auto
  have n2: "Trace w xs \<notin> set calls" for w xs
    using load_llama_no_stage [of "Trace w xs" e llama_id] l1 by auto
  have f1: "filter (\<lambda>ev. ev = From_pretrained c tinyllama_id) calls = []" for c
    using n1 [of c] by (auto simp add: filter_empty_conv)
  show ?thesis
  proof (cases "access_denied err")
    case False
    then show ?thesis using l1 c1 by (simp add: convert_llama_def)
  next
    case True
    obtain r calls' where l2: "load_llama e tinyllama_id = (r, calls')"
      by (cases "load_llama e tinyllama_id")
    have n3: "Trace w xs \<notin> set calls'" for w xs
      using load_llama_no_stage [of "Trace w xs" e tinyllama_id] l2 by auto
    have t: "length (filter (\<lambda>ev. ev = From_pretrained AutoTokenizer tinyllama_id) calls') = 1"
      using l2 by (auto simp add: load_llama_def split: sum.splits option.splits)
    have m: "length (filter (\<lambda>ev. ev = From_pretrained AutoModelForCausalLM tinyllama_id) calls') \<le> 1"
      using l2 by (auto simp add: load_llama_def split: sum.splits option.splits)
    have x: "filter (\<lambda>ev. ev = From_pretrained c tinyllama_id)
               (events (llama_export e tok mdl fsys)) = []" for c tok mdl
      by (simp add: llama_export_def Let_def split: sum.splits prod.splits option.splits)
    show ?thesis
    proof (cases r)
      case (Inl fallback_error)
      then show ?thesis using True l1 l2 f1 t m by (simp add: convert_llama_def)
    next
      case (Inr tm)
      obtain tok mdl where tm: "tm = (tok, mdl)" by (cases tm)
      show ?thesis using True l1 l2 f1 t m Inr tm x n2 n3 llama_export_traces [of _ _ e tok mdl fsys]
          llama_export_wraps [of mdl e tok fsys]
        by (auto simp add: convert_llama_def)
    qed
  qed
qed


lemma gated_text: "access_denied ''403 Client Error: Cannot access gated repo''"
  by (simp add: access_denied_def)

lemma offline_text: "\<not> access_denied ''Connection error''"
  by (simp add: access_denied_def lower_def lower_char_def)

theorem convert_llama_fallback_once_witness:
  "fst (load_llama (machine gated_hub tracer_ok) llama_id)
     = Inl ''403 Client Error: Cannot access gated repo''
   \<and> access_denied ''403 Client Error: Cannot access gated repo''
   \<and> length (filter (\<lambda>ev. ev = From_pretrained AutoTokenizer tinyllama_id)
                (events (convert_llama (machine gated_hub tracer_ok) Map.empty))) = 1
   \<and> fst (load_llama (machine gated_hub tracer_ok) tinyllama_id) = Inr (1, 2)
   \<and> map fst (traces (events (convert_llama (machine gated_hub tracer_ok) Map.empty)))
        = [LlamaWrapper 2]
   \<and> fst (load_llama (machine offline_hub tracer_ok) llama_id) = Inl ''Connection error''
   \<and> \<not> access_denied ''Connection error''
   \<and> filter (is_load_of tinyllama_id)
         (events (convert_llama (machine offline_hub tracer_ok) Map.empty)) = []"
proof -
  have g: "fst (load_llama (machine gated_hub tracer_ok) llama_id)
             = Inl ''403 Client Error: Cannot access gated repo''"
    by (simp add: load_llama_def machine_def gated_hub_def)
  have f: "fst (load_llama (machine gated_hub tracer_ok) tinyllama_id) = Inr (1, 2)"
    by (simp add: load_llama_def machine_def gated_hub_def llama_id_def tinyllama_id_def)
  have off: "fst (load_llama (machine offline_hub tracer_ok) llama_id) = Inl ''Connection error''"
    by (simp add: load_llama_def machine_def offline_hub_def)
  have t: "map fst (traces (events (convert_llama (machine gated_hub tracer_ok) Map.empty)))
             = [LlamaWrapper 2]"
    by (simp add: convert_llama_def load_llama_def llama_export_def machine_def gated_hub_def
          tracer_ok_def torch_randint_def ct_convert_def mlmodel_save_def gated_text
          llama_id_def tinyllama_id_def Let_def)
  show ?thesis
    using g f off t gated_text offline_text
      convert_llama_fallback_once [OF g, of Map.empty]
      convert_llama_fallback_once [OF off, of Map.empty]
    by simp
qed

lemma timeout_text: "access_denied ''timeout after 1403 ms''"
  by (simp add: access_denied_def)

text \<open>
  C1, as stated, fails: a load that fails for another reason than a denial, a timeout
  whose text happens to hold 403, passes the script's test and the fallback is loaded.
\<close>

theorem timeout_retried_counterexample:
  "fst (load_llama (machine slow_hub tracer_ok) llama_id) = Inl ''timeout after 1403 ms''
   \<and> filter (is_load_of tinyllama_id)
        (events (convert_llama (machine slow_hub tracer_ok) Map.empty))
       = [From_pretrained AutoTokenizer tinyllama_id,
          From_pretrained AutoModelForCausalLM tinyllama_id]
   \<and> map fst (traces (events (convert_llama (machine slow_hub tracer_ok) Map.empty)))
       = [LlamaWrapper 2]"
  by (simp add: convert_llama_def load_llama_def llama_export_def machine_def slow_hub_def
      tracer_ok_def torch_randint_def ct_convert_def mlmodel_save_def timeout_text
      llama_id_def tinyllama_id_def Let_def)

lemma saves_append [simp]: "saves (xs @ ys) = saves xs @ saves ys"
  by (induction xs rule: saves.induct) simp_all

lemma traces_append [simp]: "traces (xs @ ys) = traces xs @ traces ys"
  by (induction xs rule: traces.induct) simp_all

lemma conversions_append [simp]: "conversions (xs @ ys) = conversions xs @ conversions ys"
  by (induction xs rule: conversions.induct) simp_all

lemma load_llama_quiet [simp]:
  "saves (snd (load_llama e mid)) = []" "traces (snd (load_llama e mid)) = []"
  "conversions (snd (load_llama e mid)) = []"
  "list_ex is_diagnostic (snd (load_llama e mid)) = False"
  by (simp_all add: load_llama_def split: sum.splits option.splits)

lemma randint_ok [simp]: "torch_randint e 0 100 dims = Inr (Tensor dims (random_payload e dims))"
  by (simp add: torch_randint_def)

lemma tts_export_trace_failure:
  "Trace w xs \<in> set (events (tts_export e model fsys)) \<Longrightarrow> jit_trace e w xs = Inl err \<Longrightarrow>
     outcome (tts_export e model fsys) = Returned
     \<and> Print Warning (''Tracing failed (common for complex TTS): '' @ err)
          \<in> set (events (tts_export e model fsys))
     \<and> files (tts_export e model fsys) = fsys"
  by (auto simp add: tts_export_def Let_def split: sum.splits prod.splits option.splits)

text \<open>
  C2. Whenever the tracer raises on the wrapper that \<open>convert_tts\<close> hands it, the
  function prints the tracing diagnostic with the text of the exception, returns
  normally, so that nothing escapes to the process, and leaves the files untouched.
\<close>

theorem convert_tts_trace_failure_recovered:
  assumes "Trace w xs \<in> set (events (convert_tts e fsys))"
    and "jit_trace e w xs = Inl err"
  shows "outcome (convert_tts e fsys) = Returned
     \<and> Print Warning (''Tracing failed (common for complex TTS): '' @ err)
          \<in> set (events (convert_tts e fsys))
     \<and> files (convert_tts e fsys) = fsys"
  using assms
  by (auto simp add: convert_tts_def Let_def split: sum.splits option.splits
      dest: tts_export_trace_failure)

theorem convert_tts_trace_failure_recovered_witness:
  "Trace (TransformerWrapper 2) [Tensor [1, 10] 7, Tensor [1, 512] 7]
     \<in> set (events (convert_tts (machine open_hub tracer_fails) Map.empty))
   \<and> jit_trace (machine open_hub tracer_fails) (TransformerWrapper 2)
        [Tensor [1, 10] 7, Tensor [1, 512] 7] = Inl ''data-dependent control flow''
   \<and> outcome (convert_tts (machine open_hub tracer_fails) Map.empty) = Returned
   \<and> Print Warning ''Tracing failed (common for complex TTS): data-dependent control flow''
        \<in> set (events (convert_tts (machine open_hub tracer_fails) Map.empty))
   \<and> files (convert_tts (machine open_hub tracer_fails) Map.empty) = Map.empty"
proof -
  have t: "Trace (TransformerWrapper 2) [Tensor [1, 10] 7, Tensor [1, 512] 7]
             \<in> set (events (convert_tts (machine open_hub tracer_fails) Map.empty))"
    by (simp add: convert_tts_def tts_export_def machine_def open_hub_def tracer_fails_def
          torch_randn_def Let_def)
  have j: "jit_trace (machine open_hub tracer_fails) (TransformerWrapper 2)
             [Tensor [1, 10] 7, Tensor [1, 512] 7] = Inl ''data-dependent control flow''"
    by (simp add: machine_def tracer_fails_def)
  show ?thesis
    using t j convert_tts_trace_failure_recovered [OF t j] by simp
qed


lemma llama_export_runs:
  assumes "wrapper_eval e (LlamaWrapper model) = None"
    and "torch_randint e 0 (vocab_size e tokenizer) [1, 10] = Inr example_input"
    and "jit_trace e (LlamaWrapper model) [example_input] = Inr traced"
    and "convert_payload e traced llama_convert_args = Inr blob"
    and "save_outcome e (MLModel llama_convert_args blob) ''Llama3_1B.mlpackage'' = Saved"
  shows "outcome (llama_export e tokenizer model fsys) = Returned"
    and "traces (events (llama_export e tokenizer model fsys))
           = [(LlamaWrapper model, [example_input])]"
    and "conversions (events (llama_export e tokenizer model fsys)) = [llama_convert_args]"
    and "saves (events (llama_export e tokenizer model fsys))
           = [(MLModel llama_convert_args blob, ''Llama3_1B.mlpackage'')]"
    and "files (llama_export e tokenizer model fsys)
           = fsys(''Llama3_1B.mlpackage'' \<mapsto> Package (MLModel llama_convert_args blob))"
  using assms
  by (simp_all add: llama_export_def ct_convert_def mlmodel_save_def Let_def)

lemma randint_shape: "torch_randint e low high dims = Inr t \<Longrightarrow> shape t = dims"
  by (auto simp add: torch_randint_def split: if_splits)

text \<open>
  C3. When \<open>convert_llama\<close> gets a model, the one it asked for or the fallback after a
  denial, and the tracer, the converter and the save succeed, the wrapper is traced on one
  sample input of shape \<open>(1, 10)\<close> and the run ends with a package at
  \<open>Llama3_1B.mlpackage\<close> whose only declared input is \<open>input_ids\<close>, with a declared
  shape that accepts \<open>(1, n)\<close> for every \<open>n\<close> from 1 to 2048, and whose only output is
  named \<open>logits\<close>.
\<close>

theorem llama_package_accepts_declared_range:
  assumes "fst (load_llama e llama_id) = Inr (tokenizer, model)
           \<or> (\<exists>err. fst (load_llama e llama_id) = Inl err \<and> access_denied err
                 \<and> fst (load_llama e tinyllama_id) = Inr (tokenizer, model))"
    and "wrapper_eval e (LlamaWrapper model) = None"
    and "torch_randint e 0 (vocab_size e tokenizer) [1, 10] = Inr example_input"
    and "jit_trace e (LlamaWrapper model) [example_input] = Inr traced"
    and "convert_payload e traced llama_convert_args = Inr blob"
    and "save_outcome e (MLModel llama_convert_args blob) ''Llama3_1B.mlpackage'' = Saved"
  shows "shape example_input = [1, 10]
     \<and> traces (events (convert_llama e fsys)) = [(LlamaWrapper model, [example_input])]
     \<and> outcome (convert_llama e fsys) = Returned
     \<and> files (convert_llama e fsys)
         = fsys(''Llama3_1B.mlpackage'' \<mapsto> Package (MLModel llama_convert_args blob))
     \<and> (\<exists>dims dt.
           inputs (declared (MLModel llama_convert_args blob))
             = [TensorType ''input_ids'' (Some dims) dt]
         \<and> (\<forall>n. 1 \<le> n \<and> n \<le> 2048 \<longrightarrow> shape_accepts dims [1, n]))
     \<and> map tt_name (outputs (declared (MLModel llama_convert_args blob))) = [''logits'']"
proof -
  note x = llama_export_runs [OF assms(2-6), of fsys]
  obtain r1 c1 where l1: "load_llama e llama_id = (r1, c1)" by (cases "load_llama e llama_id")
  obtain r2 c2 where l2: "load_llama e tinyllama_id = (r2, c2)"
    by (cases "load_llama e tinyllama_id")
  have q1: "traces c1 = []" using load_llama_quiet [of e llama_id] l1 by simp
  have q2: "traces c2 = []" using load_llama_quiet [of e tinyllama_id] l2 by simp
  have run: "traces (events (convert_llama e fsys)) = [(LlamaWrapper model, [example_input])]
     \<and> outcome (convert_llama e fsys) = Returned
     \<and> files (convert_llama e fsys)
         = fsys(''Llama3_1B.mlpackage'' \<mapsto> Package (MLModel llama_convert_args blob))"
    using assms(1) l1 l2 q1 q2 x by (auto simp add: convert_llama_def)
  have decl: "(\<exists>dims dt.
           inputs (declared (MLModel llama_convert_args blob))
             = [TensorType ''input_ids'' (Some dims) dt]
         \<and> (\<forall>n. 1 \<le> n \<and> n \<le> 2048 \<longrightarrow> shape_accepts dims [1, n]))
     \<and> map tt_name (outputs (declared (MLModel llama_convert_args blob))) = [''logits'']"
    by (simp add: llama_convert_args_def shape_accepts_def)
  show ?thesis
    using run decl randint_shape [OF assms(3)] by simp
qed

theorem llama_package_accepts_declared_range_witness:
  "fst (load_llama (machine gated_hub tracer_ok) llama_id)
     = Inl ''403 Client Error: Cannot access gated repo''
   \<and> access_denied ''403 Client Error: Cannot access gated repo''
   \<and> fst (load_llama (machine gated_hub tracer_ok) tinyllama_id) = Inr (1, 2)
   \<and> torch_randint (machine gated_hub tracer_ok) 0
        (vocab_size (machine gated_hub tracer_ok) 1) [1, 10] = Inr (Tensor [1, 10] 7)
   \<and> jit_trace (machine gated_hub tracer_ok) (LlamaWrapper 2) [Tensor [1, 10] 7] = Inr 3
   \<and> convert_payload (machine gated_hub tracer_ok) 3 llama_convert_args = Inr 9
   \<and> traces (events (convert_llama (machine gated_hub tracer_ok) Map.empty))
       = [(LlamaWrapper 2, [Tensor [1, 10] 7])]
   \<and> outcome (convert_llama (machine gated_hub tracer_ok) Map.empty) = Returned
   \<and> files (convert_llama (machine gated_hub tracer_ok) Map.empty)
       = [''Llama3_1B.mlpackage'' \<mapsto> Package (MLModel llama_convert_args 9)]
   \<and> inputs (declared (MLModel llama_convert_args 9))
       = [TensorType ''input_ids'' (Some [Dim 1, RangeDim 1 2048]) (Some Dtype_int)]
   \<and> shape_accepts [Dim 1, RangeDim 1 2048] [1, 1]
   \<and> shape_accepts [Dim 1, RangeDim 1 2048] [1, 2048]
   \<and> map tt_name (outputs (declared (MLModel llama_convert_args 9))) = [''logits'']"
proof -
  have g: "fst (load_llama (machine gated_hub tracer_ok) llama_id)
             = Inl ''403 Client Error: Cannot access gated repo''"
    by (simp add: load_llama_def machine_def gated_hub_def)
  have f: "fst (load_llama (machine gated_hub tracer_ok) tinyllama_id) = Inr (1, 2)"
    by (simp add: load_llama_def machine_def gated_hub_def llama_id_def tinyllama_id_def)
  have r: "fst (load_llama (machine gated_hub tracer_ok) llama_id) = Inr (1, 2)
           \<or> (\<exists>err. fst (load_llama (machine gated_hub tracer_ok) llama_id) = Inl err
                 \<and> access_denied err
                 \<and> fst (load_llama (machine gated_hub tracer_ok) tinyllama_id) = Inr (1, 2))"
    using g f gated_text by simp
  have w: "wrapper_eval (machine gated_hub tracer_ok) (LlamaWrapper 2) = None"
    by (simp add: machine_def)
  have s: "torch_randint (machine gated_hub tracer_ok) 0
             (vocab_size (machine gated_hub tracer_ok) 1) [1, 10] = Inr (Tensor [1, 10] 7)"
    by (simp add: torch_randint_def machine_def)
  have t: "jit_trace (machine gated_hub tracer_ok) (LlamaWrapper 2) [Tensor [1, 10] 7] = Inr 3"
    by (simp add: machine_def tracer_ok_def)
  have c: "convert_payload (machine gated_hub tracer_ok) 3 llama_convert_args = Inr 9"
    by (simp add: machine_def)
  have v: "save_outcome (machine gated_hub tracer_ok) (MLModel llama_convert_args 9)
             ''Llama3_1B.mlpackage'' = Saved"
    by (simp add: machine_def)
  have d: "inputs (declared (MLModel llama_convert_args 9))
       = [TensorType ''input_ids'' (Some [Dim 1, RangeDim 1 2048]) (Some Dtype_int)]
   \<and> shape_accepts [Dim 1, RangeDim 1 2048] [1, 1]
   \<and> shape_accepts [Dim 1, RangeDim 1 2048] [1, 2048]
   \<and> map tt_name (outputs (declared (MLModel llama_convert_args 9))) = [''logits'']"
    by (simp add: llama_convert_args_def shape_accepts_def)
  show ?thesis
    using g f s t c d gated_text
      llama_package_accepts_declared_range [OF r w s t c v, of Map.empty]
    by simp
qed















lemma written_emit [simp]:
  "package_written e fsys (emit (Print i msg) r) = package_written e fsys r"
  "package_written e fsys (emit (From_pretrained c mid) r) = package_written e fsys r"
  "package_written e fsys (emit (Module_eval h) r) = package_written e fsys r"
  "package_written e fsys (emit (Wrapper_eval w) r) = package_written e fsys r"
  "package_written e fsys (emit Get_model r) = package_written e fsys r"
  "package_written e fsys (emit (Trace w xs) r) = package_written e fsys r"
  "package_written e fsys (emit (Convert g args) r) = package_written e fsys r"
  by (simp_all add: package_written_def)

lemma written_emit_save [simp]:
  "package_written e fsys (emit (Save m p) r) =
     ((save_outcome e m p = Saved \<and> files r = fsys(p \<mapsto> Package m))
      \<or> package_written e fsys r)"
  by (simp add: package_written_def)

lemma written_emits:
  "saves evs = [] \<Longrightarrow> package_written e fsys (emits evs r) = package_written e fsys r"
  by (simp add: package_written_def)

lemma written_finish [simp]: "\<not> package_written e fsys (finish oc fsys')"
  by (simp add: package_written_def)

lemma diagnosed_emit [simp]:
  "diagnosed (emit ev r) = (is_diagnostic ev \<or> diagnosed r)"
  by (auto simp add: diagnosed_def)

lemma diagnosed_emits:
  "diagnosed (emits evs r) = (list_ex is_diagnostic evs \<or> diagnosed r)"
  by (auto simp add: diagnosed_def)

lemma diagnosed_finish [simp]: "diagnosed (finish oc fsys) = (oc \<noteq> Returned)"
  by (simp add: diagnosed_def)

lemma llama_export_written:
  "package_written e fsys (llama_export e tokenizer model fsys)
     = (outcome (llama_export e tokenizer model fsys) = Returned)"
  by (auto simp add: llama_export_def Let_def mlmodel_save_def
      split: sum.splits option.splits save_result.splits)

lemma llama_export_quiet:
  "\<not> list_ex is_diagnostic (events (llama_export e tokenizer model fsys))"
  by (auto simp add: llama_export_def Let_def
      split: sum.splits option.splits prod.splits)

lemma convert_llama_resolved:
  assumes "fst (load_llama e llama_id) = Inr (tokenizer, model)
           \<or> (\<exists>err. fst (load_llama e llama_id) = Inl err \<and> access_denied err
                 \<and> fst (load_llama e tinyllama_id) = Inr (tokenizer, model))"
  shows "package_written e fsys (convert_llama e fsys)
           = (outcome (convert_llama e fsys) = Returned)"
proof -
  obtain r1 c1 where l1: "load_llama e llama_id = (r1, c1)" by (cases "load_llama e llama_id")
  obtain r2 c2 where l2: "load_llama e tinyllama_id = (r2, c2)"
    by (cases "load_llama e tinyllama_id")
  have q1: "saves c1 = []" using load_llama_quiet [of e llama_id] l1 by simp
  have q2: "saves c2 = []" using load_llama_quiet [of e tinyllama_id] l2 by simp
  show ?thesis
    using assms l1 l2 q1 q2 llama_export_written [of e fsys tokenizer model]
    by (auto simp add: convert_llama_def written_emits)
qed

lemma convert_llama_unresolved:
  assumes "fst (load_llama e llama_id) = Inl err"
    and "\<not> access_denied err \<or> isl (fst (load_llama e tinyllama_id))"
  shows "outcome (convert_llama e fsys) = Returned"
    and "\<not> package_written e fsys (convert_llama e fsys)"
    and "diagnosed (convert_llama e fsys)"
proof -
  obtain c1 where l1: "load_llama e llama_id = (Inl err, c1)"
    using assms(1) by (cases "load_llama e llama_id") simp
  obtain r2 c2 where l2: "load_llama e tinyllama_id = (r2, c2)"
    by (cases "load_llama e tinyllama_id")
  have q1: "saves c1 = []" using load_llama_quiet [of e llama_id] l1 by simp
  have q2: "saves c2 = []" using load_llama_quiet [of e tinyllama_id] l2 by simp
  show "outcome (convert_llama e fsys) = Returned"
    using assms(2) l1 l2 by (auto simp add: convert_llama_def split: sum.splits)
  show "\<not> package_written e fsys (convert_llama e fsys)"
    using assms(2) l1 l2 q1 q2
    by (auto simp add: convert_llama_def written_emits split: sum.splits)
  show "diagnosed (convert_llama e fsys)"
    using l1 by (simp add: convert_llama_def diagnosed_emits)
qed

lemma convert_llama_ends:
  "(package_written e fsys (convert_llama e fsys) \<or> diagnosed (convert_llama e fsys))
   \<and> (package_written e fsys (convert_llama e fsys)
        \<longrightarrow> outcome (convert_llama e fsys) = Returned)"
proof (cases "fst (load_llama e llama_id)")
  case (Inr tm)
  obtain tokenizer model where tm: "tm = (tokenizer, model)" by (cases tm)
  show ?thesis
    using convert_llama_resolved [of e tokenizer model fsys] Inr tm
    by (auto simp add: diagnosed_def)
next
  case (Inl err)
  show ?thesis
  proof (cases "access_denied err \<and> \<not> isl (fst (load_llama e tinyllama_id))")
    case False
    then show ?thesis
      using convert_llama_unresolved [of e err fsys] Inl by auto
  next
    case True
    then obtain tokenizer model where f: "fst (load_llama e tinyllama_id) = Inr (tokenizer, model)"
      by (cases "fst (load_llama e tinyllama_id)") auto
    show ?thesis
      using convert_llama_resolved [of e tokenizer model fsys] Inl True f
      by (auto simp add: diagnosed_def)
  qed
qed

lemma tts_export_ends:
  "(package_written e fsys (tts_export e model fsys) \<or> diagnosed (tts_export e model fsys))
   \<and> (package_written e fsys (tts_export e model fsys)
        \<longrightarrow> outcome (tts_export e model fsys) = Returned)
   \<and> (list_ex is_diagnostic (events (tts_export e model fsys))
        \<longrightarrow> outcome (tts_export e model fsys) = Returned)"
  by (auto simp add: tts_export_def Let_def mlmodel_save_def
      split: sum.splits option.splits save_result.splits)

lemma convert_tts_ends:
  "(package_written e fsys (convert_tts e fsys) \<or> diagnosed (convert_tts e fsys))
   \<and> (package_written e fsys (convert_tts e fsys)
        \<longrightarrow> outcome (convert_tts e fsys) = Returned)
   \<and> (list_ex is_diagnostic (events (convert_tts e fsys))
        \<longrightarrow> outcome (convert_tts e fsys) = Returned)"
  using tts_export_ends [of e fsys]
  by (auto simp add: convert_tts_def Let_def split: sum.splits option.splits)

lemma generate_speaker_encoder_written:
  "package_written e fsys (generate_speaker_encoder e fsys)
     = (outcome (generate_speaker_encoder e fsys) = Returned)"
  by (auto simp add: generate_speaker_encoder_def Let_def mlmodel_save_def
      split: sum.splits option.splits save_result.splits)

lemma speaker_encoder_main_ends:
  "(package_written e fsys (speaker_encoder_main e fsys)
      \<or> diagnosed (speaker_encoder_main e fsys))
   \<and> outcome (speaker_encoder_main e fsys) = Returned"
  using generate_speaker_encoder_written [of e fsys]
  by (auto simp add: speaker_encoder_main_def Let_def package_written_def diagnosed_def
      split: outcome.splits)

text \<open>
  C6, as stated, fails: with the model hub out of reach the Llama script writes no
  package and still ends with status 0, and so does the text-to-speech script when the
  tracer raises.
\<close>

theorem failed_runs_exit_zero_counterexample:
  "\<not> package_written (machine offline_hub tracer_ok) Map.empty
        (llama_script (machine offline_hub tracer_ok) Map.empty)
   \<and> files (llama_script (machine offline_hub tracer_ok) Map.empty) = Map.empty
   \<and> exit_status (llama_script (machine offline_hub tracer_ok) Map.empty) = 0
   \<and> \<not> package_written (machine open_hub tracer_fails) Map.empty
        (tts_script (machine open_hub tracer_fails) Map.empty)
   \<and> files (tts_script (machine open_hub tracer_fails) Map.empty) = Map.empty
   \<and> exit_status (tts_script (machine open_hub tracer_fails) Map.empty) = 0"
  by (simp add: llama_script_def tts_script_def convert_llama_def load_llama_def
      convert_tts_def tts_export_def machine_def
      offline_hub_def open_hub_def tracer_fails_def torch_randn_def offline_text
      exit_status_def package_written_def Let_def)

text \<open>
  C6, amended. Every run of one of the three scripts writes its package or emits a
  diagnostic (a line under the cross or the warning sign, or the traceback of an uncaught
  exception), and a run that writes its package ends with status 0. A run that fails ends
  with a non-zero status when the exception escapes the script: so does every run of the
  Llama script that gets a model, the one it asked for or the fallback, and then writes
  no package. It ends with status 0 when the script handles the failure itself: in the
  Llama script when the first load fails and either the error is not read as an access
  denial or the fallback load fails too, and in the text-to-speech and speaker-encoder
  scripts whenever the script has printed a diagnostic line.
\<close>

theorem entry_points_write_or_diagnose:
  "(\<forall>script \<in> {llama_script, tts_script, speaker_encoder_script}.
      (package_written e fsys (script e fsys) \<or> diagnosed (script e fsys))
      \<and> (package_written e fsys (script e fsys) \<longrightarrow> exit_status (script e fsys) = 0))
   \<and> (\<forall>tokenizer model.
        import_all e [''torch'', ''coremltools'', ''transformers'', ''os''] = None
        \<and> (fst (load_llama e llama_id) = Inr (tokenizer, model)
            \<or> (\<exists>err. fst (load_llama e llama_id) = Inl err \<and> access_denied err
                  \<and> fst (load_llama e tinyllama_id) = Inr (tokenizer, model)))
        \<and> \<not> package_written e fsys (llama_script e fsys)
        \<longrightarrow> exit_status (llama_script e fsys) = 1)
   \<and> (\<forall>err.
        import_all e [''torch'', ''coremltools'', ''transformers'', ''os''] = None
        \<and> fst (load_llama e llama_id) = Inl err
        \<and> (\<not> access_denied err \<or> isl (fst (load_llama e tinyllama_id)))
        \<longrightarrow> exit_status (llama_script e fsys) = 0
            \<and> \<not> package_written e fsys (llama_script e fsys))
   \<and> (\<forall>script \<in> {tts_script, speaker_encoder_script}.
        list_ex is_diagnostic (events (script e fsys)) \<longrightarrow> exit_status (script e fsys) = 0)"
proof -
  have a: "(package_written e fsys (llama_script e fsys) \<or> diagnosed (llama_script e fsys))
      \<and> (package_written e fsys (llama_script e fsys) \<longrightarrow> exit_status (llama_script e fsys) = 0)"
    using convert_llama_ends [of e fsys]
    by (auto simp add: llama_script_def exit_status_def split: option.splits)
  have b: "(package_written e fsys (tts_script e fsys) \<or> diagnosed (tts_script e fsys))
      \<and> (package_written e fsys (tts_script e fsys) \<longrightarrow> exit_status (tts_script e fsys) = 0)
      \<and> (list_ex is_diagnostic (events (tts_script e fsys))
            \<longrightarrow> exit_status (tts_script e fsys) = 0)"
    using convert_tts_ends [of e fsys]
    by (auto simp add: tts_script_def exit_status_def split: option.splits)
  have c: "(package_written e fsys (speaker_encoder_script e fsys)
              \<or> diagnosed (speaker_encoder_script e fsys))
      \<and> (package_written e fsys (speaker_encoder_script e fsys)
            \<longrightarrow> exit_status (speaker_encoder_script e fsys) = 0)
      \<and> (list_ex is_diagnostic (events (speaker_encoder_script e fsys))
            \<longrightarrow> exit_status (speaker_encoder_script e fsys) = 0)"
    using speaker_encoder_main_ends [of e fsys]
    by (auto simp add: speaker_encoder_script_def exit_status_def split: option.splits)
  have d: "import_all e [''torch'', ''coremltools'', ''transformers'', ''os''] = None
        \<and> (fst (load_llama e llama_id) = Inr (tokenizer, model)
            \<or> (\<exists>err. fst (load_llama e llama_id) = Inl err \<and> access_denied err
                  \<and> fst (load_llama e tinyllama_id) = Inr (tokenizer, model)))
        \<and> \<not> package_written e fsys (llama_script e fsys)
        \<longrightarrow> exit_status (llama_script e fsys) = 1" for tokenizer model
    using convert_llama_resolved [of e tokenizer model fsys]
    by (auto simp add: llama_script_def exit_status_def split: outcome.splits)
  have f: "import_all e [''torch'', ''coremltools'', ''transformers'', ''os''] = None
        \<and> fst (load_llama e llama_id) = Inl err
        \<and> (\<not> access_denied err \<or> isl (fst (load_llama e tinyllama_id)))
        \<longrightarrow> exit_status (llama_script e fsys) = 0
            \<and> \<not> package_written e fsys (llama_script e fsys)" for err
    using convert_llama_unresolved [of e err fsys]
    by (auto simp add: llama_script_def exit_status_def)
  have scripts: "(\<forall>script \<in> {llama_script, tts_script, speaker_encoder_script}.
      (package_written e fsys (script e fsys) \<or> diagnosed (script e fsys))
      \<and> (package_written e fsys (script e fsys) \<longrightarrow> exit_status (script e fsys) = 0))"
    using a b c by simp
  have handled: "(\<forall>script \<in> {tts_script, speaker_encoder_script}.
        list_ex is_diagnostic (events (script e fsys)) \<longrightarrow> exit_status (script e fsys) = 0)"
    using b c by simp
  show ?thesis
    using scripts handled d f by blast
qed


lemma imports_ok:
  "import_all (machine hub tracer) [''torch'', ''coremltools'', ''transformers'', ''os''] = None"
  by (simp add: machine_def)

theorem entry_points_write_or_diagnose_witness:
  "fst (load_llama (machine offline_hub tracer_ok) llama_id) = Inl ''Connection error''
   \<and> \<not> access_denied ''Connection error''
   \<and> exit_status (llama_script (machine offline_hub tracer_ok) Map.empty) = 0
   \<and> \<not> package_written (machine offline_hub tracer_ok) Map.empty
        (llama_script (machine offline_hub tracer_ok) Map.empty)
   \<and> diagnosed (llama_script (machine offline_hub tracer_ok) Map.empty)
   \<and> fst (load_llama (machine open_hub tracer_fails) llama_id) = Inr (1, 2)
   \<and> \<not> package_written (machine open_hub tracer_fails) Map.empty
        (llama_script (machine open_hub tracer_fails) Map.empty)
   \<and> exit_status (llama_script (machine open_hub tracer_fails) Map.empty) = 1
   \<and> package_written (machine open_hub tracer_ok) Map.empty
        (llama_script (machine open_hub tracer_ok) Map.empty)
   \<and> exit_status (llama_script (machine open_hub tracer_ok) Map.empty) = 0
   \<and> list_ex is_diagnostic (events (tts_script (machine open_hub tracer_fails) Map.empty))
   \<and> exit_status (tts_script (machine open_hub tracer_fails) Map.empty) = 0
   \<and> exit_status (speaker_encoder_script no_torchaudio Map.empty) = 1
   \<and> diagnosed (speaker_encoder_script no_torchaudio Map.empty)"
proof -
  have na: "exit_status (speaker_encoder_script no_torchaudio Map.empty) = 1"
    by (simp add: speaker_encoder_script_def no_torchaudio_def machine_def exit_status_def)
  note t4 = entry_points_write_or_diagnose [of no_torchaudio Map.empty]
  have nd: "diagnosed (speaker_encoder_script no_torchaudio Map.empty)"
    using t4 [THEN conjunct1] na by auto
  have off: "fst (load_llama (machine offline_hub tracer_ok) llama_id) = Inl ''Connection error''"
    by (simp add: load_llama_def machine_def offline_hub_def)
  have on: "fst (load_llama (machine open_hub tracer_fails) llama_id) = Inr (1, 2)"
    by (simp add: load_llama_def machine_def open_hub_def)
  have nw: "\<not> package_written (machine open_hub tracer_fails) Map.empty
        (llama_script (machine open_hub tracer_fails) Map.empty)"
    by (simp add: llama_script_def convert_llama_def load_llama_def llama_export_def
        machine_def open_hub_def tracer_fails_def torch_randint_def package_written_def Let_def)
  have w: "package_written (machine open_hub tracer_ok) Map.empty
        (llama_script (machine open_hub tracer_ok) Map.empty)"
    by (simp add: llama_script_def convert_llama_def load_llama_def llama_export_def
        machine_def open_hub_def tracer_ok_def torch_randint_def ct_convert_def
        mlmodel_save_def package_written_def Let_def)
  have dg: "list_ex is_diagnostic
              (events (tts_script (machine open_hub tracer_fails) Map.empty))"
    by (simp add: tts_script_def convert_tts_def tts_export_def machine_def open_hub_def
        tracer_fails_def torch_randn_def Let_def)
  note t1 = entry_points_write_or_diagnose [of "machine offline_hub tracer_ok" Map.empty]
  note t2 = entry_points_write_or_diagnose [of "machine open_hub tracer_fails" Map.empty]
  note t3 = entry_points_write_or_diagnose [of "machine open_hub tracer_ok" Map.empty]
  have i1: "import_all (machine offline_hub tracer_ok)
              [''torch'', ''coremltools'', ''transformers'', ''os''] = None"
    by (rule imports_ok)
  have i2: "import_all (machine open_hub tracer_fails)
              [''torch'', ''coremltools'', ''transformers'', ''os''] = None"
    by (rule imports_ok)
  have a: "exit_status (llama_script (machine offline_hub tracer_ok) Map.empty) = 0
     \<and> \<not> package_written (machine offline_hub tracer_ok) Map.empty
          (llama_script (machine offline_hub tracer_ok) Map.empty)"
    using t1 [THEN conjunct2, THEN conjunct2, THEN conjunct1, rule_format,
              of "''Connection error''"] i1 off offline_text
    by simp
  have b: "diagnosed (llama_script (machine offline_hub tracer_ok) Map.empty)"
    using t1 [THEN conjunct1] a by simp
  have c: "exit_status (llama_script (machine open_hub tracer_fails) Map.empty) = 1"
    using t2 [THEN conjunct2, THEN conjunct1, rule_format, of 1 2] i2 on nw
    by simp
  have d: "exit_status (llama_script (machine open_hub tracer_ok) Map.empty) = 0"
    using t3 [THEN conjunct1] w by simp
  have f: "exit_status (tts_script (machine open_hub tracer_fails) Map.empty) = 0"
    using t2 [THEN conjunct2, THEN conjunct2, THEN conjunct2] dg by simp
  show ?thesis
    using off offline_text on nw w dg a b c d f na nd by simp
qed












lemma llama_export_conversions:
  "set (conversions (events (llama_export e tokenizer model fsys))) \<subseteq> {llama_convert_args}"
  by (auto simp add: llama_export_def Let_def split: sum.splits prod.splits option.splits)

lemma convert_llama_conversions:
  "set (conversions (events (convert_llama e fsys))) \<subseteq> {llama_convert_args}"
proof -
  obtain r1 c1 where l1: "load_llama e llama_id = (r1, c1)" by (cases "load_llama e llama_id")
  obtain r2 c2 where l2: "load_llama e tinyllama_id = (r2, c2)"
    by (cases "load_llama e tinyllama_id")
  have q1: "conversions c1 = []" using load_llama_quiet [of e llama_id] l1 by simp
  have q2: "conversions c2 = []" using load_llama_quiet [of e tinyllama_id] l2 by simp
  show ?thesis
    using l1 l2 q1 q2 llama_export_conversions [of e _ _ fsys]
    by (auto simp add: convert_llama_def split: sum.splits if_splits)
qed

lemma tts_export_conversions:
  "set (conversions (events (tts_export e model fsys))) \<subseteq> {tts_convert_args}"
  by (auto simp add: tts_export_def Let_def split: sum.splits prod.splits option.splits)

lemma convert_tts_conversions:
  "set (conversions (events (convert_tts e fsys))) \<subseteq> {tts_convert_args}"
  using tts_export_conversions [of e _ fsys]
  by (auto simp add: convert_tts_def Let_def split: sum.splits option.splits)

lemma generate_speaker_encoder_conversions:
  "set (conversions (events (generate_speaker_encoder e fsys))) \<subseteq> {voice_convert_args}"
  by (auto simp add: generate_speaker_encoder_def Let_def
      split: sum.splits prod.splits option.splits)

lemma speaker_encoder_main_conversions:
  "set (conversions (events (speaker_encoder_main e fsys))) \<subseteq> {voice_convert_args}"
  using generate_speaker_encoder_conversions [of e fsys]
  by (auto simp add: speaker_encoder_main_def Let_def split: outcome.splits)

text \<open>
  C8, as stated, fails on the text-to-speech script: the one conversion it asks for names
  neither compute units nor a minimum deployment target.
\<close>

theorem tts_export_unannotated_counterexample:
  "conversions (events (convert_tts (machine open_hub tracer_ok) Map.empty)) = [tts_convert_args]
   \<and> compute_units tts_convert_args = None
   \<and> minimum_deployment_target tts_convert_args = None"
  by (simp add: convert_tts_def tts_export_def machine_def open_hub_def
      tracer_ok_def torch_randn_def ct_convert_def mlmodel_save_def Let_def tts_convert_args_def)

text \<open>
  C8, amended. Every conversion the Llama script asks for names the compute units
  \<open>CPU_AND_NE\<close> and the minimum deployment target \<open>iOS16\<close>; every conversion the
  text-to-speech script and the speaker-encoder script ask for names neither, and leaves
  both to the converter's defaults.
\<close>

theorem export_annotations:
  "(\<forall>args \<in> set (conversions (events (convert_llama e fsys))).
      compute_units args = Some CPU_AND_NE \<and> minimum_deployment_target args = Some iOS16)
   \<and> (\<forall>args \<in> set (conversions (events (convert_tts e fsys))).
      compute_units args = None \<and> minimum_deployment_target args = None)
   \<and> (\<forall>args \<in> set (conversions (events (speaker_encoder_main e fsys))).
      compute_units args = None \<and> minimum_deployment_target args = None)"
  using convert_llama_conversions [of e fsys] convert_tts_conversions [of e fsys]
    speaker_encoder_main_conversions [of e fsys]
  by (auto simp add: llama_convert_args_def tts_convert_args_def voice_convert_args_def)

lemma open_llama_conversions:
  "conversions (events (convert_llama (machine open_hub tracer_ok) Map.empty))
     = [llama_convert_args]"
  by (simp add: convert_llama_def load_llama_def llama_export_def machine_def open_hub_def
      tracer_ok_def torch_randint_def ct_convert_def mlmodel_save_def Let_def)

lemma open_voice_conversions:
  "conversions (events (speaker_encoder_main (machine open_hub tracer_ok) Map.empty))
     = [voice_convert_args]"
  by (simp add: speaker_encoder_main_def generate_speaker_encoder_def machine_def
      tracer_ok_def torch_randn_def ct_convert_def mlmodel_save_def Let_def)

lemma open_tts_conversions:
  "conversions (events (convert_tts (machine open_hub tracer_ok) Map.empty)) = [tts_convert_args]"
  by (simp add: convert_tts_def tts_export_def machine_def open_hub_def
      tracer_ok_def torch_randn_def ct_convert_def mlmodel_save_def Let_def)

theorem export_annotations_witness:
  "conversions (events (convert_llama (machine open_hub tracer_ok) Map.empty))
     = [llama_convert_args]
   \<and> compute_units llama_convert_args = Some CPU_AND_NE
   \<and> minimum_deployment_target llama_convert_args = Some iOS16
   \<and> conversions (events (convert_tts (machine open_hub tracer_ok) Map.empty))
     = [tts_convert_args]
   \<and> compute_units tts_convert_args = None
   \<and> minimum_deployment_target tts_convert_args = None
   \<and> conversions (events (speaker_encoder_main (machine open_hub tracer_ok) Map.empty))
     = [voice_convert_args]
   \<and> compute_units voice_convert_args = None
   \<and> minimum_deployment_target voice_convert_args = None"
  using open_llama_conversions open_tts_conversions open_voice_conversions
    export_annotations [of "machine open_hub tracer_ok" Map.empty]
  by simp

section \<open>Facts about the servers\<close>

lemma tts_failed_error [simp]: "is_error_response (fst (tts_failed err evs))"
  by (simp add: tts_failed_def)

lemma tts_failed_events [simp]:
  "snd (tts_failed err evs) = evs @ [Log_error (''TTS Generation Error: '' @ err)]"
  by (simp add: tts_failed_def)






text \<open>
  C9. A request to \<open>/tts\<close> that omits \<open>speaker_wav\<close> is handled exactly as the same
  request with \<open>reference_audio/pcpos_ref.wav\<close>, and one that omits \<open>language\<close> as the
  same request with \<open>en\<close>: the existence check and the call of the model see the
  defaults.
\<close>

theorem generate_speech_defaults:
  "(data ''speaker_wav'' = None \<longrightarrow>
      generate_speech e tts data
        = generate_speech e tts (data(''speaker_wav'' \<mapsto> JStr ''reference_audio/pcpos_ref.wav''))
      \<and> (\<forall>ev \<in> set (snd (generate_speech e tts data)).
            (\<forall>v. ev = Exists_check v \<longrightarrow> v = JStr ''reference_audio/pcpos_ref.wav'')
          \<and> (\<forall>text v language p. ev = Tts_to_file text v language p
                \<longrightarrow> v = JStr ''reference_audio/pcpos_ref.wav'')))
   \<and> (data ''language'' = None \<longrightarrow>
      generate_speech e tts data = generate_speech e tts (data(''language'' \<mapsto> JStr ''en''))
      \<and> (\<forall>ev \<in> set (snd (generate_speech e tts data)).
            \<forall>text v language p. ev = Tts_to_file text v language p \<longrightarrow> language = JStr ''en''))"
  by (auto simp add: generate_speech_def dict_get_def Let_def tts_failed_def
      split: option.splits sum.splits)


theorem generate_speech_defaults_witness:
  "[''text'' \<mapsto> JStr ''hello''] ''speaker_wav'' = None
   \<and> [''text'' \<mapsto> JStr ''hello''] ''language'' = None
   \<and> generate_speech speech_host (Some 1) [''text'' \<mapsto> JStr ''hello'']
       = generate_speech speech_host (Some 1)
           [''text'' \<mapsto> JStr ''hello'', ''speaker_wav'' \<mapsto> JStr ''reference_audio/pcpos_ref.wav'']
   \<and> generate_speech speech_host (Some 1) [''text'' \<mapsto> JStr ''hello'']
       = generate_speech speech_host (Some 1)
           [''text'' \<mapsto> JStr ''hello'', ''language'' \<mapsto> JStr ''en'']
   \<and> snd (generate_speech speech_host (Some 1) [''text'' \<mapsto> JStr ''hello''])
       = [Temp_file, Exists_check (JStr ''reference_audio/pcpos_ref.wav''),
          Tts_to_file (JStr ''hello'') (JStr ''reference_audio/pcpos_ref.wav'') (JStr ''en'')
            ''/tmp/tmp0.wav'',
          Send_file ''/tmp/tmp0.wav'']"
proof -
  have s: "snd (generate_speech speech_host (Some 1) [''text'' \<mapsto> JStr ''hello''])
       = [Temp_file, Exists_check (JStr ''reference_audio/pcpos_ref.wav''),
          Tts_to_file (JStr ''hello'') (JStr ''reference_audio/pcpos_ref.wav'') (JStr ''en'')
            ''/tmp/tmp0.wav'',
          Send_file ''/tmp/tmp0.wav'']"
    by (simp add: generate_speech_def speech_host_def dict_get_def Let_def)
  have n1: "[''text'' \<mapsto> JStr ''hello''] ''speaker_wav'' = None" by simp
  have n2: "[''text'' \<mapsto> JStr ''hello''] ''language'' = None" by simp
  note d = generate_speech_defaults [of "[''text'' \<mapsto> JStr ''hello'']" speech_host "Some 1"]
  have a: "generate_speech speech_host (Some 1) [''text'' \<mapsto> JStr ''hello'']
       = generate_speech speech_host (Some 1)
           [''text'' \<mapsto> JStr ''hello'', ''speaker_wav'' \<mapsto> JStr ''reference_audio/pcpos_ref.wav'']"
    using d n1 by blast
  have b: "generate_speech speech_host (Some 1) [''text'' \<mapsto> JStr ''hello'']
       = generate_speech speech_host (Some 1)
           [''text'' \<mapsto> JStr ''hello'', ''language'' \<mapsto> JStr ''en'']"
    using d n2 by blast
  show ?thesis
    using n1 n2 a b s by blast
qed


end
